theory Spec2Isabelle
  imports Complex_Main
begin

section \<open>JavaScript values shared by the frontend sources\<close>

text \<open>
  The sources under verification are the React frontend of the dashboard
  (\<^verbatim>\<open>pages/ActiveCheckins\<close>, \<^verbatim>\<open>pages/Dashboard\<close>, \<^verbatim>\<open>pages/Machines\<close>,
  \<^verbatim>\<open>hooks/useApi.ts\<close>).  A JavaScript \<^verbatim>\<open>number\<close> that holds an identifier or a
  count is modelled as \<^typ>\<open>int\<close>, one that holds a measurement (minutes, a
  percentage) as \<^typ>\<open>rat\<close>: every finite double is a rational.  \<^verbatim>\<open>NaN\<close>, the
  infinities and the rounding of double arithmetic are outside the model.

  A value caught by \<^verbatim>\<open>catch (err)\<close> is either an \<^verbatim>\<open>Error\<close> instance, which carries
  a message, or anything else.
\<close>

datatype thrown = Error string | NonError

text \<open>\<^verbatim>\<open>err instanceof Error ? err.message : fallback\<close>\<close>

definition error_message :: "string \<Rightarrow> thrown \<Rightarrow> string" where
  "error_message fallback err = (case err of Error m \<Rightarrow> m | NonError \<Rightarrow> fallback)"

text \<open>
  The text a template literal produces for an integral number: its decimal
  digits, with a leading minus sign for a negative one (JavaScript prints
  integral numbers this way below \<open>10\<^sup>2\<^sup>1\<close>).
\<close>

definition digit_char :: "nat \<Rightarrow> char" where
  "digit_char d = ''0123456789'' ! d"

fun js_string_of_nat :: "nat \<Rightarrow> string" where
  "js_string_of_nat n =
     (if n < 10 then [digit_char n]
      else js_string_of_nat (n div 10) @ [digit_char (n mod 10)])"

declare js_string_of_nat.simps [simp del]

definition js_string_of_int :: "int \<Rightarrow> string" where
  "js_string_of_int i =
     (if i < 0 then CHR ''-'' # js_string_of_nat (nat (- i)) else js_string_of_nat (nat i))"

text \<open>
  \<^verbatim>\<open>Math.round\<close> rounds to the nearest integer, a tie towards \<open>+\<infinity>\<close>;
  \<^verbatim>\<open>Math.floor\<close> rounds down; \<^verbatim>\<open>a % b\<close> is the remainder of the division truncated
  towards zero, so it has the sign of \<open>a\<close>.  (\<^verbatim>\<open>a % 0\<close> is \<^verbatim>\<open>NaN\<close> in JavaScript;
  the sources only divide by the literal 60.)
\<close>

definition Math_round :: "rat \<Rightarrow> int" where
  "Math_round x = \<lfloor>x + 1 / 2\<rfloor>"

definition Math_floor :: "rat \<Rightarrow> int" where
  "Math_floor x = \<lfloor>x\<rfloor>"

definition js_trunc :: "rat \<Rightarrow> int" where
  "js_trunc x = (if x < 0 then \<lceil>x\<rceil> else \<lfloor>x\<rfloor>)"

definition js_rem :: "rat \<Rightarrow> rat \<Rightarrow> rat" where
  "js_rem a b = a - b * of_int (js_trunc (a / b))"


section \<open>The Active Check-ins page\<close>

record ActiveCheckin =
  id_c :: int
  pokemon_id :: int
  pokemon_name :: string
  type_primary :: string
  type_secondary :: "string option"
  machine_id :: int
  machine_name :: string
  machine_location :: string
  arrived_at :: string
  initial_hp :: int
  max_hp :: int
  minutes_in_treatment :: rat

record ActiveCheckinsResponse =
  active_checkins :: "ActiveCheckin list"
  count :: int

text \<open>The outcome chosen in the dismiss dialog: the type \<^verbatim>\<open>"success" | "fail"\<close>.\<close>

datatype dismiss_outcome = Success | Fail

fun outcome_param :: "dismiss_outcome \<Rightarrow> string" where
  "outcome_param Success = ''success''"
| "outcome_param Fail = ''fail''"

text \<open>The state variables of the \<^verbatim>\<open>ActiveCheckins\<close> component.\<close>

record ActiveCheckins_state =
  checkins :: "ActiveCheckinsResponse option"
  loading :: bool
  error :: "string option"
  dismissDialogOpen :: bool
  selectedCheckin :: "ActiveCheckin option"
  dismissOutcome :: dismiss_outcome
  dismissing :: bool

text \<open>
  A call of \<^verbatim>\<open>fetchApi\<close>: the URL and the HTTP method.  The network is a
  parameter of the model: a function from the request to either the thrown
  value or the parsed response.
\<close>

record request =
  url :: string
  http_method :: string

definition openDismissDialog :: "ActiveCheckin \<Rightarrow> ActiveCheckins_state \<Rightarrow> ActiveCheckins_state" where
  "openDismissDialog checkin s =
     s\<lparr>selectedCheckin := Some checkin, dismissOutcome := Success, dismissDialogOpen := True\<rparr>"

text \<open>The request \<^verbatim>\<open>handleDismiss\<close> sends for the selected check-in.\<close>

definition dismiss_request :: "ActiveCheckin \<Rightarrow> dismiss_outcome \<Rightarrow> request" where
  "dismiss_request sel oc =
     \<lparr>url = ''/checkins/dismiss/'' @ js_string_of_int (id_c sel) @ ''?outcome='' @ outcome_param oc,
      http_method = ''POST''\<rparr>"

text \<open>
  The updater passed to \<^verbatim>\<open>setCheckins\<close>:
  \<^verbatim>\<open>(prev) => prev ? {...prev, active_checkins: prev.active_checkins.filter(c => c.id !== sel.id), count: prev.count - 1} : null\<close>
\<close>

definition dismiss_update ::
    "ActiveCheckin \<Rightarrow> ActiveCheckinsResponse option \<Rightarrow> ActiveCheckinsResponse option" where
  "dismiss_update sel prev_opt =
     (case prev_opt of
        None \<Rightarrow> None
      | Some prev \<Rightarrow>
          Some (prev\<lparr>active_checkins := filter (\<lambda>c. id_c c \<noteq> id_c sel) (active_checkins prev),
                     count := count prev - 1\<rparr>))"

text \<open>
  \<^verbatim>\<open>handleDismiss\<close>: nothing happens without a selection.  Otherwise the request
  is sent inside \<^verbatim>\<open>try\<close>; on success the local list is updated, the dialog is
  closed and the selection cleared; a thrown value is caught and turned into
  the error message; \<^verbatim>\<open>finally\<close> resets \<^verbatim>\<open>dismissing\<close> on both paths.  The handler
  is followed from the state it starts in to the state it leaves, with no
  other update of the page in between; the response itself is not used.
\<close>

definition handleDismiss ::
    "(request \<Rightarrow> thrown + 'r) \<Rightarrow> ActiveCheckins_state \<Rightarrow> ActiveCheckins_state" where
  "handleDismiss fetchApi s =
     (case selectedCheckin s of
        None \<Rightarrow> s
      | Some sel \<Rightarrow>
          (let s1 = s\<lparr>dismissing := True\<rparr> in
           (case fetchApi (dismiss_request sel (dismissOutcome s)) of
              Inr _ \<Rightarrow>
                s1\<lparr>checkins := dismiss_update sel (checkins s1),
                   dismissDialogOpen := False,
                   selectedCheckin := None,
                   dismissing := False\<rparr>
            | Inl err \<Rightarrow>
                s1\<lparr>error := Some (error_message ''Failed to dismiss check-in'' err),
                   dismissing := False\<rparr>)))"

text \<open>
  \<^verbatim>\<open>formatTreatmentTime\<close>, with the two template literals written out.
\<close>

definition formatTreatmentTime :: "rat \<Rightarrow> string" where
  "formatTreatmentTime minutes =
     (if minutes < 60 then js_string_of_int (Math_round minutes) @ '' min''
      else
        (let hours = Math_floor (minutes / 60);
             mins = Math_round (js_rem minutes 60)
         in js_string_of_int hours @ ''h '' @ js_string_of_int mins @ ''m''))"


section \<open>The data hooks\<close>

text \<open>
  An \<^verbatim>\<open>async\<close> function either resolves to a value or rejects with the thrown
  value: \<open>Inr\<close> and \<open>Inl\<close>.  \<^verbatim>\<open>try { body } catch (err) { handler }\<close>:
\<close>

definition try_catch :: "thrown + 'a \<Rightarrow> (thrown \<Rightarrow> thrown + 'a) \<Rightarrow> thrown + 'a" where
  "try_catch body handler = (case body of Inl err \<Rightarrow> handler err | Inr v \<Rightarrow> Inr v)"

record 'a UseApiState =
  data :: "'a option"
  loading_api :: bool
  error_api :: "string option"

definition useApi_initial :: "'a UseApiState" where
  "useApi_initial = \<lparr>data = None, loading_api = True, error_api = None\<rparr>"

definition useApi_fetchData ::
    "(string \<Rightarrow> thrown + 'a) \<Rightarrow> string \<Rightarrow> 'a UseApiState \<Rightarrow> thrown + 'a UseApiState" where
  "useApi_fetchData fetchApi endpoint st =
     (let st1 = st\<lparr>loading_api := True, error_api := None\<rparr> in
      try_catch
        (case fetchApi endpoint of
           Inl err \<Rightarrow> Inl err
         | Inr d \<Rightarrow> Inr \<lparr>data = Some d, loading_api = False, error_api = None\<rparr>)
        (\<lambda>err. Inr \<lparr>data = None, loading_api = False,
                      error_api = Some (error_message ''An error occurred'' err)\<rparr>))"

datatype http_verb = POST | PUT | DELETE

record RequestInit =
  method_init :: http_verb
  body_init :: "string option"

record MutationState =
  loading_m :: bool
  error_m :: "string option"

text \<open>
  \<^verbatim>\<open>params ? JSON.stringify(params) : undefined\<close>.  The parameter is optional;
  its truthiness and its serialisation (which can throw, and can yield
  \<^verbatim>\<open>undefined\<close>) depend on the type \<^verbatim>\<open>P\<close> and are parameters of the model.
\<close>

definition mutate_body ::
    "('p \<Rightarrow> bool) \<Rightarrow> ('p \<Rightarrow> thrown + string option) \<Rightarrow> 'p option \<Rightarrow> thrown + string option" where
  "mutate_body truthy stringify params =
     (case params of
        None \<Rightarrow> Inr None
      | Some p \<Rightarrow> if truthy p then stringify p else Inr None)"

definition mutate ::
    "('p \<Rightarrow> bool) \<Rightarrow> ('p \<Rightarrow> thrown + string option) \<Rightarrow>
     (string \<Rightarrow> RequestInit \<Rightarrow> thrown + 'a) \<Rightarrow> string \<Rightarrow> http_verb \<Rightarrow>
     'p option \<Rightarrow> MutationState \<Rightarrow> thrown + ('a option \<times> MutationState)" where
  "mutate truthy stringify fetchApi endpoint verb params st =
     (let st1 = st\<lparr>loading_m := True\<rparr>;
          st2 = st1\<lparr>error_m := None\<rparr>
      in
      try_catch
        (case mutate_body truthy stringify params of
           Inl err \<Rightarrow> Inl err
         | Inr body \<Rightarrow>
             (case fetchApi endpoint \<lparr>method_init = verb, body_init = body\<rparr> of
                Inl err \<Rightarrow> Inl err
              | Inr d \<Rightarrow> Inr (Some d, st2\<lparr>loading_m := False\<rparr>)))
        (\<lambda>err. Inr (None, st2\<lparr>error_m := Some (error_message ''An error occurred'' err),
                                 loading_m := False\<rparr>)))"


section \<open>The Machine Metrics page\<close>

text \<open>
  A parsed JSON value, and an object as the list of its properties.  The
  \<^verbatim>\<open>in\<close> operator asks whether the object has a property of that name.
\<close>

datatype js_value =
    JNull
  | JNum rat
  | JStr string
  | JArr "js_value list"
  | JObj "(string \<times> js_value) list"

type_synonym js_object = "(string \<times> js_value) list"

definition has_property :: "string \<Rightarrow> js_object \<Rightarrow> bool" where
  "has_property k obj = (k \<in> set (map fst obj))"

text \<open>
  The interfaces \<^verbatim>\<open>Machine\<close> and \<^verbatim>\<open>CompareMachine extends Machine\<close>, and the
  element type of \<^verbatim>\<open>current_patients\<close> (its fields carry the prefix \<open>patient_\<close>
  where the check-in of the Active Check-ins page has a field of the same
  name).  The interfaces declare \<^verbatim>\<open>avg_healing_time_minutes\<close> and
  \<^verbatim>\<open>healing_time_delta\<close> as \<^verbatim>\<open>number\<close>, but the page reads them as possibly
  missing (\<^verbatim>\<open>machine.avg_healing_time_minutes?.toFixed(0) || "-"\<close>,
  \<^verbatim>\<open>compareM.healing_time_delta && ...\<close>), so they are optional here;
  \<^verbatim>\<open>is_baseline\<close> is a \<^verbatim>\<open>number\<close> used as a truth value.
\<close>

record Patient =
  patient_pokemon_name :: string
  patient_type_primary :: string
  patient_type_secondary :: "string option"
  patient_arrived_at :: string
  patient_initial_hp :: int
  patient_max_hp :: int
  checkin_id :: int

record Machine =
  id_m :: int
  name :: string
  model :: string
  location :: string
  total_checkins :: int
  success_rate :: rat
  successful :: int
  failed :: int
  avg_healing_time_minutes :: "rat option"
  current_patients :: "Patient list"

record CompareMachine = Machine +
  success_rate_delta :: rat
  checkins_delta :: int
  healing_time_delta :: "rat option"
  is_baseline :: int

record MachinesResponse =
  machines :: "Machine list"

record CompareResponse =
  baseline_id :: int
  compare_machines :: "CompareMachine list"

text \<open>The objects the two interfaces describe, as the JSON parser delivers them.\<close>

definition js_nullable :: "('a \<Rightarrow> js_value) \<Rightarrow> 'a option \<Rightarrow> js_value" where
  "js_nullable f v = (case v of None \<Rightarrow> JNull | Some x \<Rightarrow> f x)"

definition Patient_object :: "Patient \<Rightarrow> js_object" where
  "Patient_object p =
     [(''pokemon_name'', JStr (patient_pokemon_name p)),
      (''type_primary'', JStr (patient_type_primary p)),
      (''type_secondary'', js_nullable JStr (patient_type_secondary p)),
      (''arrived_at'', JStr (patient_arrived_at p)),
      (''initial_hp'', JNum (of_int (patient_initial_hp p))),
      (''max_hp'', JNum (of_int (patient_max_hp p))),
      (''checkin_id'', JNum (of_int (checkin_id p)))]"

definition Machine_object :: "'a Machine_scheme \<Rightarrow> js_object" where
  "Machine_object m =
     [(''id'', JNum (of_int (id_m m))),
      (''name'', JStr (name m)),
      (''model'', JStr (model m)),
      (''location'', JStr (location m)),
      (''total_checkins'', JNum (of_int (total_checkins m))),
      (''success_rate'', JNum (success_rate m)),
      (''successful'', JNum (of_int (successful m))),
      (''failed'', JNum (of_int (failed m))),
      (''avg_healing_time_minutes'', js_nullable JNum (avg_healing_time_minutes m)),
      (''current_patients'', JArr (map (\<lambda>p. JObj (Patient_object p)) (current_patients m)))]"

definition CompareMachine_object :: "CompareMachine \<Rightarrow> js_object" where
  "CompareMachine_object m =
     Machine_object m @
     [(''success_rate_delta'', JNum (success_rate_delta m)),
      (''checkins_delta'', JNum (of_int (checkins_delta m))),
      (''healing_time_delta'', js_nullable JNum (healing_time_delta m)),
      (''is_baseline'', JNum (of_int (is_baseline m)))]"

text \<open>
  \<^verbatim>\<open>const displayMachines = compareData?.machines || machines?.machines || []\<close>:
  an array is truthy even when empty, so the comparison data wins whenever
  it is there.
\<close>

definition displayMachines ::
    "CompareResponse option \<Rightarrow> MachinesResponse option \<Rightarrow> js_object list" where
  "displayMachines compareData machinesData =
     (case compareData of
        Some c \<Rightarrow> map CompareMachine_object (compare_machines c)
      | None \<Rightarrow>
          (case machinesData of
             Some r \<Rightarrow> map Machine_object (machines r)
           | None \<Rightarrow> []))"

text \<open>
  The type guard
  \<^verbatim>\<open>isCompareMachine = (m) => "success_rate_delta" in m\<close>.
\<close>

definition isCompareMachine :: "js_object \<Rightarrow> bool" where
  "isCompareMachine m = has_property ''success_rate_delta'' m"

text \<open>
  The tagged variant the design notes describe, with its explicit
  discriminator, and the object each alternative stands for.
\<close>

datatype MachineView = Plain Machine | Compared CompareMachine

fun is_Compared :: "MachineView \<Rightarrow> bool" where
  "is_Compared (Plain m) = False"
| "is_Compared (Compared c) = True"

fun MachineView_object :: "MachineView \<Rightarrow> js_object" where
  "MachineView_object (Plain m) = Machine_object m"
| "MachineView_object (Compared c) = CompareMachine_object c"


section \<open>The aggregation core\<close>

text \<open>
  The backend that aggregates the check-in rows, validates the query options
  and computes the comparison is not among the sources; only its callers (the
  pages above) and the shapes of its responses are.  The definitions of this
  section are therefore written from the specification.
\<close>

text \<open>
  Modelled from the spec: the outcome of a completed check-in (section 3:
  \<^verbatim>\<open>successful | failed | unset-while-active\<close>); the record store and its schema
  are not in the sources.  The unset outcome is \<open>None\<close> in the row below.
\<close>

datatype outcome = Successful | Failed

text \<open>
  Modelled from the spec: the check-in row of the record store (sections 3
  and 6: id, subject, machine, arrival, nullable completion timestamp,
  nullable outcome, initial and maximum health); the store is not in the
  sources.  Timestamps are counted in some fixed unit.
\<close>

record Checkin =
  ck_id :: int
  ck_subject_id :: int
  ck_machine_id :: int
  ck_arrived_at :: nat
  ck_healed_at :: "nat option"
  ck_outcome :: "outcome option"
  ck_initial_hp :: int
  ck_max_hp :: int

text \<open>
  Modelled from the spec: "a check-in is active iff completion timestamp is
  absent" (section 3); the queries that select active and completed rows are
  not in the sources.
\<close>

definition is_active :: "Checkin \<Rightarrow> bool" where
  "is_active c = (ck_healed_at c = None)"

text \<open>
  Modelled from the spec: a completed check-in is one that is not active
  (section 3); missing with the backend's queries.
\<close>

definition is_completed :: "Checkin \<Rightarrow> bool" where
  "is_completed c = (ck_healed_at c \<noteq> None)"

text \<open>
  Modelled from the spec: "successful count (completed with successful
  outcome)" (section 4.3); missing with the backend's queries.
\<close>

definition is_successful :: "Checkin \<Rightarrow> bool" where
  "is_successful c = (is_completed c \<and> ck_outcome c = Some Successful)"

text \<open>
  Modelled from the spec: the "divide-by-zero fault" of sections 4.3 and 7,
  the one fault a rate calculation could raise; the backend's arithmetic is
  not in the sources.
\<close>

datatype fault = DivideByZero

text \<open>
  Modelled from the spec: division as the backend's language performs it, an
  operation that faults on a zero divisor, so that "never a division fault"
  (section 4.3) is a statement about results; the backend is not in the
  sources.
\<close>

definition divide_checked :: "rat \<Rightarrow> rat \<Rightarrow> fault + rat" where
  "divide_checked a b = (if b = 0 then Inl DivideByZero else Inr (a / b))"

text \<open>
  Modelled from the spec: \<open>round(x, 1)\<close> of section 4.3, rounding to one
  decimal place (to the nearest tenth); the backend's rounding function is
  not in the sources.
\<close>

definition round1 :: "rat \<Rightarrow> rat" where
  "round1 x = of_int (round (x * 10)) / 10"

text \<open>
  Modelled from the spec: "success rate for any summary is
  \<open>round(successful / total * 100, 1)\<close> [...] rate is 0 when the
  completed-total is 0, never a division fault" (section 4.3); the
  aggregation queries are not in the sources.
\<close>

definition rate :: "nat \<Rightarrow> nat \<Rightarrow> fault + rat" where
  "rate n denom =
     (if denom = 0 then Inr 0
      else (case divide_checked (of_nat n) (of_nat denom) of
              Inl f \<Rightarrow> Inl f
            | Inr q \<Rightarrow> Inr (round1 (q * 100))))"

text \<open>
  Modelled from the spec: the success rate of a collection of check-ins (a
  bucket, a machine, a leaderboard entry, the whole window), with the
  denominator "restricted to completed check-ins only" (sections 4.3 and
  4.4); the aggregation queries are not in the sources.
\<close>

definition success_rate_of :: "Checkin list \<Rightarrow> fault + rat" where
  "success_rate_of cs =
     rate (length (filter is_successful cs)) (length (filter is_completed cs))"

text \<open>
  Modelled from the spec: the error taxonomy of section 7, of which the
  request handlers that raise the errors are not in the sources: invalid
  input is a validation failure with a descriptive message, an unknown
  reference is reported distinctly as not found.
\<close>

datatype core_error = ValidationFailure string | NotFound string

text \<open>
  Modelled from the spec: "\<^verbatim>\<open>segment_by\<close> \<open>\<in>\<close> {none, type, subject} (default
  none)" (section 6); the backend's option type is not in the sources.
\<close>

datatype segment_by = SegmentNone | SegmentType | SegmentSubject

text \<open>
  Modelled from the spec: reading the \<^verbatim>\<open>segment_by\<close> option of a request, absent
  or given as text (sections 6 and 7: an unrecognized value is rejected with
  a descriptive validation failure, never silently coerced); the request
  handler is not in the sources.
\<close>

definition parse_segment_by :: "string option \<Rightarrow> core_error + segment_by" where
  "parse_segment_by v =
     (case v of
        None \<Rightarrow> Inr SegmentNone
      | Some s \<Rightarrow>
          if s = ''none'' then Inr SegmentNone
          else if s = ''type'' then Inr SegmentType
          else if s = ''subject'' then Inr SegmentSubject
          else Inl (ValidationFailure (''segment_by must be none, type or subject, got '' @ s)))"

text \<open>
  Modelled from the spec: reading the \<^verbatim>\<open>limit\<close> option of a leaderboard
  request ("default 5, caller-configurable, must be \<open>\<ge>\<close> 1", section 4.4; a
  non-positive limit is invalid input, section 7); the request handler is not
  in the sources.
\<close>

definition parse_limit :: "int option \<Rightarrow> core_error + nat" where
  "parse_limit v =
     (case v of
        None \<Rightarrow> Inr 5
      | Some n \<Rightarrow>
          if 1 \<le> n then Inr (nat n)
          else Inl (ValidationFailure (''limit must be at least 1, got '' @ js_string_of_int n)))"

text \<open>
  Modelled from the spec: a leaderboard is the top \<open>N\<close> of a ranking (section
  4.4), and a request with an invalid limit is rejected instead; the
  Leaderboard Engine is not in the sources, and the ranking itself is taken
  as given here.
\<close>

definition leaderboard :: "int option \<Rightarrow> 'e list \<Rightarrow> core_error + 'e list" where
  "leaderboard limit ranked =
     (case parse_limit limit of
        Inl e \<Rightarrow> Inl e
      | Inr n \<Rightarrow> Inr (take n ranked))"

text \<open>
  Modelled from the spec: the comparison entry of one machine against the
  baseline (section 4.5), missing from the sources with the backend; input
  and output are the \<^verbatim>\<open>Machine\<close> and \<^verbatim>\<open>CompareMachine\<close> rows the Machine Metrics
  page declares.  The baseline's deltas are set to 0 and its flag is set; for
  another machine the success-rate delta is the difference of the rates at
  one-decimal precision, the check-ins delta the difference of the totals,
  and the healing-time delta the difference of the averages, absent (the
  sentinel) when either machine has no average.
\<close>

definition compare_entry :: "Machine \<Rightarrow> Machine \<Rightarrow> CompareMachine" where
  "compare_entry b m =
     (if id_m m = id_m b then
        Machine.extend m (CompareMachine.fields 0 0 (Some 0) 1)
      else
        Machine.extend m
          (CompareMachine.fields
             (round1 (success_rate m - success_rate b))
             (total_checkins m - total_checkins b)
             (case (avg_healing_time_minutes m, avg_healing_time_minutes b) of
                (Some x, Some y) \<Rightarrow> Some (x - y)
              | _ \<Rightarrow> None)
             0))"

text \<open>
  Modelled from the spec: the Comparison Engine (section 4.5): one entry per
  machine against the baseline with the given identifier, and a "baseline
  not found" error, with no fallback, when no machine has it; the engine is
  not in the sources.
\<close>

definition compare :: "int \<Rightarrow> Machine list \<Rightarrow> core_error + CompareResponse" where
  "compare bid ms =
     (case find (\<lambda>m. id_m m = bid) ms of
        None \<Rightarrow> Inl (NotFound (''baseline not found: '' @ js_string_of_int bid))
      | Some b \<Rightarrow> Inr \<lparr>baseline_id = bid, compare_machines = map (compare_entry b) ms\<rparr>)"



text \<open>
  Modelled from the spec: the dismiss operation on a row (section 3: rows are
  "mutated externally exactly once (dismiss sets completion timestamp +
  outcome)"); the backend handler behind \<^verbatim>\<open>POST /checkins/dismiss/<id>\<close> is not in
  the sources, only the page that calls it.  Only an active check-in is
  dismissed, so that a row is mutated once; dismissing a completed one
  changes nothing and yields no row.
\<close>

definition dismiss :: "nat \<Rightarrow> outcome \<Rightarrow> Checkin \<Rightarrow> Checkin option" where
  "dismiss now oc c =
     (if is_active c then Some (c\<lparr>ck_healed_at := Some now, ck_outcome := Some oc\<rparr>)
      else None)"


section \<open>Concrete inputs\<close>

text \<open>
  A check-in with a given id, a page state showing the check-ins with the
  given ids (the count agreeing with the list) with one of them selected in
  the dismiss dialog, and two networks: one that answers every request, one
  that fails every request.
\<close>

definition checkin_example :: "int \<Rightarrow> ActiveCheckin" where
  "checkin_example i = \<lparr>id_c = i, pokemon_id = 25, pokemon_name = ''Pikachu'', type_primary = ''electric'',
     type_secondary = None, machine_id = 1, machine_name = ''M1'', machine_location = ''Lobby'',
     arrived_at = ''2024-01-01 10:00:00'', initial_hp = 10, max_hp = 35, minutes_in_treatment = 239 / 2\<rparr>"

definition state_example :: "int list \<Rightarrow> int \<Rightarrow> ActiveCheckins_state" where
  "state_example ids sel =
     \<lparr>checkins = Some \<lparr>active_checkins = map checkin_example ids, count = int (length ids)\<rparr>,
      loading = False, error = None, dismissDialogOpen = True,
      selectedCheckin = Some (checkin_example sel), dismissOutcome = Success, dismissing = False\<rparr>"

definition fetch_ok :: "request \<Rightarrow> thrown + unit" where
  "fetch_ok req = Inr ()"

definition fetch_failing :: "request \<Rightarrow> thrown + unit" where
  "fetch_failing req = Inl (Error ''HTTP 500'')"


text \<open>
  For the hooks: a network that is down, one that answers 42, and a numeric
  parameter type, truthy when non-zero and serialised in decimal.
\<close>

definition fetch_down :: "string \<Rightarrow> thrown + nat" where
  "fetch_down endpoint = Inl (Error ''Network down'')"

definition fetch_answer :: "string \<Rightarrow> thrown + nat" where
  "fetch_answer endpoint = Inr 42"

definition post_down :: "string \<Rightarrow> RequestInit \<Rightarrow> thrown + nat" where
  "post_down endpoint init = Inl NonError"

definition post_answer :: "string \<Rightarrow> RequestInit \<Rightarrow> thrown + nat" where
  "post_answer endpoint init = Inr 42"

definition stringify_nat :: "nat \<Rightarrow> thrown + string option" where
  "stringify_nat n = Inr (Some (js_string_of_nat n))"

definition truthy_nat :: "nat \<Rightarrow> bool" where
  "truthy_nat n = (n \<noteq> 0)"

definition mutation_idle :: MutationState where
  "mutation_idle = \<lparr>loading_m = False, error_m = Some ''stale''\<rparr>"


text \<open>
  For the Machine Metrics page: the summary of one machine, and the same
  machine as the baseline entry of a comparison.
\<close>

definition machine_example :: Machine where
  "machine_example =
     \<lparr>id_m = 1, name = ''Healer A'', model = ''HX-1'', location = ''Lobby'',
      total_checkins = 10, success_rate = 90, successful = 9, failed = 1,
      avg_healing_time_minutes = Some 30, current_patients = []\<rparr>"

definition compare_example :: CompareMachine where
  "compare_example =
     Machine.extend machine_example
       (CompareMachine.fields 0 0 (Some 0) 1)"


text \<open>
  For the aggregation core: a check-in row, a machine summary, the scenario of
  two completed successful check-ins and one active one, and three machines to
  compare.
\<close>

definition checkin_row :: "int \<Rightarrow> nat option \<Rightarrow> outcome option \<Rightarrow> Checkin" where
  "checkin_row i healed oc =
     \<lparr>ck_id = i, ck_subject_id = 25, ck_machine_id = 1, ck_arrived_at = 100,
      ck_healed_at = healed, ck_outcome = oc, ck_initial_hp = 10, ck_max_hp = 35\<rparr>"

definition machine_row :: "int \<Rightarrow> int \<Rightarrow> rat \<Rightarrow> rat option \<Rightarrow> Machine" where
  "machine_row i n r avg =
     \<lparr>id_m = i, name = ''Healer'', model = ''HX-1'', location = ''Lobby'',
      total_checkins = n, success_rate = r, successful = 0, failed = 0,
      avg_healing_time_minutes = avg, current_patients = []\<rparr>"

definition checkins_scenario :: "Checkin list" where
  "checkins_scenario =
     [checkin_row 1 (Some 130) (Some Successful),
      checkin_row 2 (Some 140) (Some Successful),
      checkin_row 3 None None]"

definition machines_scenario :: "Machine list" where
  "machines_scenario =
     [machine_row 1 10 90 (Some 30),
      machine_row 2 7 80 None,
      machine_row 3 12 (191 / 2) (Some 23)]"


section \<open>Properties of the dismiss handler\<close>

lemma handleDismiss_no_selection:
  "selectedCheckin s = None \<Longrightarrow> handleDismiss fetchApi s = s"
  by (simp add: handleDismiss_def)

lemma handleDismiss_ok:
  assumes "selectedCheckin s = Some sel"
    and "fetchApi (dismiss_request sel (dismissOutcome s)) = Inr r"
  shows "handleDismiss fetchApi s =
           s\<lparr>checkins := dismiss_update sel (checkins s),
             dismissDialogOpen := False, selectedCheckin := None, dismissing := False\<rparr>"
  using assms by (simp add: handleDismiss_def)

lemma handleDismiss_failed:
  assumes "selectedCheckin s = Some sel"
    and "fetchApi (dismiss_request sel (dismissOutcome s)) = Inl err"
  shows "handleDismiss fetchApi s =
           s\<lparr>error := Some (error_message ''Failed to dismiss check-in'' err),
             dismissing := False\<rparr>"
  using assms by (simp add: handleDismiss_def)

lemma length_filter_neq:
  "length (filter (\<lambda>c. f c \<noteq> v) xs) + length (filter (\<lambda>c. f c = v) xs) = length xs"
  by (induction xs) auto

lemma id_c_checkin_example: "id_c (checkin_example i) = i"
  by (simp add: checkin_example_def)

lemma state_example_fields:
  "selectedCheckin (state_example ids sel) = Some (checkin_example sel)"
  "checkins (state_example ids sel) =
     Some \<lparr>active_checkins = map checkin_example ids, count = int (length ids)\<rparr>"
  "dismissing (state_example ids sel) = False"
  by (simp_all add: state_example_def)


lemma fetch_ok_dismiss: "fetch_ok req = Inr ()"
  by (simp add: fetch_ok_def)


text \<open>
  Claim C1.  With a check-in selected and a list loaded: when the dismiss
  request succeeds, the new list is the old one without every entry that has
  the dismissed check-in's id, the count is the old count minus one, and the
  dismissed check-in is no longer in the list; when the request fails, the
  list and the count are unchanged and the state differs from the one before
  only in the error message (and in \<^verbatim>\<open>dismissing\<close>, which \<^verbatim>\<open>finally\<close> lowers; the
  confirm button is disabled while it is raised).  The handler reads the
  network only at the dismiss request: it does not fetch the list again.
\<close>

theorem handleDismiss_updates_local_state:
  fixes fetchApi :: "request \<Rightarrow> thrown + 'r"
  assumes sel: "selectedCheckin s = Some sel"
    and prev: "checkins s = Some prev"
  shows "(fetchApi (dismiss_request sel (dismissOutcome s)) = Inr r \<longrightarrow>
            (\<exists>nxt. checkins (handleDismiss fetchApi s) = Some nxt
               \<and> active_checkins nxt = filter (\<lambda>c. id_c c \<noteq> id_c sel) (active_checkins prev)
               \<and> count nxt = count prev - 1
               \<and> (\<forall>c \<in> set (active_checkins nxt). id_c c \<noteq> id_c sel)
               \<and> sel \<notin> set (active_checkins nxt)))
       \<and> (fetchApi (dismiss_request sel (dismissOutcome s)) = Inl err \<longrightarrow>
            checkins (handleDismiss fetchApi s) = checkins s
            \<and> handleDismiss fetchApi s =
                s\<lparr>error := Some (error_message ''Failed to dismiss check-in'' err), dismissing := False\<rparr>
            \<and> (\<not> dismissing s \<longrightarrow> handleDismiss fetchApi s =
                s\<lparr>error := Some (error_message ''Failed to dismiss check-in'' err)\<rparr>))
       \<and> (\<forall>fetchApi' :: request \<Rightarrow> thrown + 'r.
            fetchApi' (dismiss_request sel (dismissOutcome s)) =
              fetchApi (dismiss_request sel (dismissOutcome s)) \<longrightarrow>
            handleDismiss fetchApi' s = handleDismiss fetchApi s)"
proof (intro conjI impI allI)
  assume ok: "fetchApi (dismiss_request sel (dismissOutcome s)) = Inr r"
  let ?nxt = "prev\<lparr>active_checkins := filter (\<lambda>c. id_c c \<noteq> id_c sel) (active_checkins prev),
                     count := count prev - 1\<rparr>"
  have "checkins (handleDismiss fetchApi s) = Some ?nxt"
    using handleDismiss_ok [where fetchApi = fetchApi and s = s and sel = sel and r = r] sel prev ok
    by (simp add: dismiss_update_def)
  then show "\<exists>nxt. checkins (handleDismiss fetchApi s) = Some nxt
               \<and> active_checkins nxt = filter (\<lambda>c. id_c c \<noteq> id_c sel) (active_checkins prev)
               \<and> count nxt = count prev - 1
               \<and> (\<forall>c \<in> set (active_checkins nxt). id_c c \<noteq> id_c sel)
               \<and> sel \<notin> set (active_checkins nxt)"
    by auto
next
  assume bad: "fetchApi (dismiss_request sel (dismissOutcome s)) = Inl err"
  have st: "handleDismiss fetchApi s =
          s\<lparr>error := Some (error_message ''Failed to dismiss check-in'' err), dismissing := False\<rparr>"
    using handleDismiss_failed [where fetchApi = fetchApi and s = s and sel = sel and err = err] sel bad
    by simp
  show "checkins (handleDismiss fetchApi s) = checkins s"
    by (simp add: st)
  show "handleDismiss fetchApi s =
          s\<lparr>error := Some (error_message ''Failed to dismiss check-in'' err), dismissing := False\<rparr>"
    by (rule st)
  assume "\<not> dismissing s"
  then show "handleDismiss fetchApi s =
          s\<lparr>error := Some (error_message ''Failed to dismiss check-in'' err)\<rparr>"
    by (simp add: st)
next
  fix fetchApi' :: "request \<Rightarrow> thrown + 'r"
  assume "fetchApi' (dismiss_request sel (dismissOutcome s)) =
            fetchApi (dismiss_request sel (dismissOutcome s))"
  then show "handleDismiss fetchApi' s = handleDismiss fetchApi s"
    using sel by (simp add: handleDismiss_def)
qed

theorem handleDismiss_updates_local_state_witness:
  "(\<exists>nxt. checkins (handleDismiss fetch_ok (state_example [7, 8] 7)) = Some nxt
       \<and> active_checkins nxt = [checkin_example 8] \<and> count nxt = 1)
   \<and> handleDismiss fetch_failing (state_example [7, 8] 7) =
      (state_example [7, 8] 7)\<lparr>error := Some ''HTTP 500''\<rparr>"
proof -
  let ?s = "state_example [7, 8] 7"
  let ?req = "dismiss_request (checkin_example 7) (dismissOutcome ?s)"
  have ok: "fetch_ok ?req = Inr ()"
    by (simp add: fetch_ok_def)
  have bad: "fetch_failing ?req = Inl (Error ''HTTP 500'')"
    by (simp add: fetch_failing_def)
  note a = handleDismiss_updates_local_state
    [where s = ?s and sel = "checkin_example 7" and fetchApi = fetch_ok and r = "()",
     OF state_example_fields(1) state_example_fields(2), THEN conjunct1, rule_format, OF ok]
  note b = handleDismiss_updates_local_state
    [where s = ?s and sel = "checkin_example 7" and fetchApi = fetch_failing
       and err = "Error ''HTTP 500''",
     OF state_example_fields(1) state_example_fields(2), THEN conjunct2, THEN conjunct1,
     rule_format, OF bad]
  from a obtain nxt where n: "checkins (handleDismiss fetch_ok ?s) = Some nxt"
    and l: "active_checkins nxt =
              filter (\<lambda>c. id_c c \<noteq> id_c (checkin_example 7))
                (active_checkins \<lparr>active_checkins = map checkin_example [7, 8],
                   count = int (length [7, 8 :: int])\<rparr>)"
    and c: "count nxt = count \<lparr>active_checkins = map checkin_example [7, 8],
                   count = int (length [7, 8 :: int])\<rparr> - 1"
    by blast
  have "active_checkins nxt = [checkin_example 8]"
    using l by (simp add: id_c_checkin_example)
  moreover have "count nxt = 1"
    using c by simp
  ultimately have first: "\<exists>nxt. checkins (handleDismiss fetch_ok ?s) = Some nxt
       \<and> active_checkins nxt = [checkin_example 8] \<and> count nxt = 1"
    using n by blast
  have nd: "\<not> dismissing ?s"
    by (simp add: state_example_fields)
  from b have "\<not> dismissing ?s \<longrightarrow> handleDismiss fetch_failing ?s =
      ?s\<lparr>error := Some (error_message ''Failed to dismiss check-in'' (Error ''HTTP 500''))\<rparr>"
    by (rule conjunct2 [THEN conjunct2])
  with nd have "handleDismiss fetch_failing ?s = ?s\<lparr>error := Some ''HTTP 500''\<rparr>"
    by (simp add: error_message_def)
  with first show ?thesis
    by (rule conjI)
qed

text \<open>
  Claim C8.  After a successful dismiss from a state whose count equals the
  length of its list, the count has gone down by exactly one and the list by
  the number of entries with the selected id; so the count equals the length
  of the list again exactly when the selected id occurred once, and the
  equality is lost when it occurred not at all or more than once.
\<close>

theorem handleDismiss_count_matches_list:
  fixes fetchApi :: "request \<Rightarrow> thrown + 'r"
  assumes sel: "selectedCheckin s = Some sel"
    and prev: "checkins s = Some prev"
    and ok: "fetchApi (dismiss_request sel (dismissOutcome s)) = Inr r"
    and inv: "count prev = int (length (active_checkins prev))"
  shows "\<exists>nxt. checkins (handleDismiss fetchApi s) = Some nxt
           \<and> count nxt = count prev - 1
           \<and> int (length (active_checkins nxt)) =
               int (length (active_checkins prev))
                 - int (length (filter (\<lambda>c. id_c c = id_c sel) (active_checkins prev)))
           \<and> ((count nxt = int (length (active_checkins nxt)))
                = (length (filter (\<lambda>c. id_c c = id_c sel) (active_checkins prev)) = 1))"
proof -
  let ?xs = "active_checkins prev"
  let ?nxt = "prev\<lparr>active_checkins := filter (\<lambda>c. id_c c \<noteq> id_c sel) ?xs,
                     count := count prev - 1\<rparr>"
  have st: "checkins (handleDismiss fetchApi s) = Some ?nxt"
    using handleDismiss_ok [where fetchApi = fetchApi and s = s and sel = sel and r = r] sel prev ok
    by (simp add: dismiss_update_def)
  have len: "int (length (filter (\<lambda>c. id_c c \<noteq> id_c sel) ?xs)) =
               int (length ?xs) - int (length (filter (\<lambda>c. id_c c = id_c sel) ?xs))"
    using length_filter_neq [of id_c "id_c sel" ?xs] by linarith
  show ?thesis
    using st len inv by auto
qed

theorem handleDismiss_count_matches_list_witness:
  "(\<exists>nxt. checkins (handleDismiss fetch_ok (state_example [7, 8] 7)) = Some nxt
       \<and> count nxt = int (length (active_checkins nxt)))
   \<and> (\<exists>nxt. checkins (handleDismiss fetch_ok (state_example [7, 8, 7] 7)) = Some nxt
       \<and> count nxt \<noteq> int (length (active_checkins nxt)))
   \<and> (\<exists>nxt. checkins (handleDismiss fetch_ok (state_example [8] 7)) = Some nxt
       \<and> count nxt \<noteq> int (length (active_checkins nxt)))"
proof -
  have t: "\<exists>nxt. checkins (handleDismiss fetch_ok (state_example ids 7)) = Some nxt
           \<and> ((count nxt = int (length (active_checkins nxt)))
                = (length (filter (\<lambda>i. i = 7) ids) = 1))" for ids
  proof -
    have inv: "count \<lparr>active_checkins = map checkin_example ids, count = int (length ids)\<rparr> =
        int (length (active_checkins
          \<lparr>active_checkins = map checkin_example ids, count = int (length ids)\<rparr>))"
      by simp
    have occ: "filter (\<lambda>c. id_c c = id_c (checkin_example 7)) (map checkin_example ids) =
        map checkin_example (filter (\<lambda>i. i = 7) ids)"
      by (simp add: filter_map o_def id_c_checkin_example)
    from handleDismiss_count_matches_list
           [where fetchApi = fetch_ok and s = "state_example ids 7"
              and sel = "checkin_example 7" and r = "()",
            OF state_example_fields(1) state_example_fields(2) fetch_ok_dismiss inv]
    obtain nxt where n: "checkins (handleDismiss fetch_ok (state_example ids 7)) = Some nxt"
      and e: "(count nxt = int (length (active_checkins nxt))) =
          (length (filter (\<lambda>c. id_c c = id_c (checkin_example 7))
             (active_checkins \<lparr>active_checkins = map checkin_example ids,
                count = int (length ids)\<rparr>)) = 1)"
      by blast
    from e have "(count nxt = int (length (active_checkins nxt))) =
          (length (filter (\<lambda>i. i = 7) ids) = 1)"
      by (simp add: occ)
    with n show ?thesis by blast
  qed
  have a: "\<exists>nxt. checkins (handleDismiss fetch_ok (state_example [7, 8] 7)) = Some nxt
       \<and> count nxt = int (length (active_checkins nxt))"
    using t [of "[7, 8]"] by simp
  have b: "\<exists>nxt. checkins (handleDismiss fetch_ok (state_example [7, 8, 7] 7)) = Some nxt
       \<and> count nxt \<noteq> int (length (active_checkins nxt))"
    using t [of "[7, 8, 7]"] by simp
  have c: "\<exists>nxt. checkins (handleDismiss fetch_ok (state_example [8] 7)) = Some nxt
       \<and> count nxt \<noteq> int (length (active_checkins nxt))"
    using t [of "[8]"] by simp
  from a b c show ?thesis by (intro conjI)
qed

section \<open>Formatting the time in treatment\<close>

lemma js_rem_nonneg: "0 \<le> a \<Longrightarrow> js_rem a 60 = a - 60 * of_int \<lfloor>a / 60\<rfloor>"
  by (simp add: js_rem_def js_trunc_def)

lemma js_string_of_nat_digit: "n < 10 \<Longrightarrow> js_string_of_nat n = [digit_char n]"
  by (simp add: js_string_of_nat.simps)

lemma js_string_of_nat_two: "10 \<le> n \<Longrightarrow> js_string_of_nat n = js_string_of_nat (n div 10) @ [digit_char (n mod 10)]"
  by (subst js_string_of_nat.simps) simp

lemma js_string_of_int_1: "js_string_of_int 1 = ''1''"
  by (simp add: js_string_of_int_def js_string_of_nat_digit digit_char_def)

lemma js_string_of_int_60: "js_string_of_int 60 = ''60''"
  by (simp add: js_string_of_int_def js_string_of_nat_two js_string_of_nat_digit digit_char_def)


text \<open>
  Claim C10.  For every non-negative number of minutes, \<^verbatim>\<open>formatTreatmentTime\<close>
  returns the rounded minutes followed by \<^verbatim>\<open>" min"\<close> below 60, and otherwise
  the hours, obtained with floor from the quotient by 60, and the minutes,
  obtained with round from the remainder modulo 60, as \<^verbatim>\<open>"<hours>h <mins>m"\<close>.
  The right-hand side is written with the mathematical floor, nearest-integer
  rounding and remainder \<open>minutes - 60 * \<lfloor>minutes / 60\<rfloor>\<close>; the left-hand side
  is the source with JavaScript's \<^verbatim>\<open>Math.round\<close>, \<^verbatim>\<open>Math.floor\<close> and \<^verbatim>\<open>%\<close>.
\<close>

theorem formatTreatmentTime_floor_round:
  assumes "0 \<le> minutes"
  shows "formatTreatmentTime minutes =
     (if minutes < 60 then js_string_of_int (round minutes) @ '' min''
      else js_string_of_int \<lfloor>minutes / 60\<rfloor> @ ''h '' @
           js_string_of_int (round (minutes - 60 * of_int \<lfloor>minutes / 60\<rfloor>)) @ ''m'')"
  using assms
  by (simp add: formatTreatmentTime_def Math_round_def Math_floor_def round_def js_rem_nonneg Let_def)

text \<open>
  At 119.5 minutes the quotient is floored to one hour and the remainder 59.5
  is rounded to 60; at 59.5 minutes the first branch rounds to 60.
\<close>

theorem formatTreatmentTime_floor_round_witness:
  "formatTreatmentTime (239 / 2) = ''1h 60m'' \<and> formatTreatmentTime (119 / 2) = ''60 min''"
proof -
  have a: "(0::rat) \<le> 239 / 2" and b: "(0::rat) \<le> 119 / 2"
    by simp_all
  have f: "\<lfloor>239 / 120 :: rat\<rfloor> = 1"
    by (simp add: floor_eq_iff)
  have r2: "round (119 / 2 :: rat) = 60"
    by (simp add: round_def floor_eq_iff)
  have "formatTreatmentTime (239 / 2) = ''1h 60m''"
    using formatTreatmentTime_floor_round [OF a] by (simp add: f r2 js_string_of_int_1 js_string_of_int_60)
  moreover have "formatTreatmentTime (119 / 2) = ''60 min''"
    using formatTreatmentTime_floor_round [OF b] by (simp add: r2 js_string_of_int_60)
  ultimately show ?thesis by (rule conjI)
qed

section \<open>Properties of the data hooks\<close>

lemma useApi_fetchData_eq:
  "useApi_fetchData fetchApi endpoint st =
     Inr (case fetchApi endpoint of
            Inl err \<Rightarrow> \<lparr>data = None, loading_api = False,
                         error_api = Some (error_message ''An error occurred'' err)\<rparr>
          | Inr d \<Rightarrow> \<lparr>data = Some d, loading_api = False, error_api = None\<rparr>)"
  by (simp add: useApi_fetchData_def try_catch_def split: sum.split)

lemma mutate_eq:
  "mutate truthy stringify fetchApi endpoint verb params st =
     Inr (case mutate_body truthy stringify params of
            Inl err \<Rightarrow> (None, \<lparr>loading_m = False,
                                 error_m = Some (error_message ''An error occurred'' err)\<rparr>)
          | Inr body \<Rightarrow>
              (case fetchApi endpoint \<lparr>method_init = verb, body_init = body\<rparr> of
                 Inl err \<Rightarrow> (None, \<lparr>loading_m = False,
                                      error_m = Some (error_message ''An error occurred'' err)\<rparr>)
               | Inr d \<Rightarrow> (Some d, \<lparr>loading_m = False, error_m = None\<rparr>)))"
  by (cases st) (simp add: mutate_def try_catch_def split: sum.split)

text \<open>
  Claim C9.  Neither hook lets a failure of \<^verbatim>\<open>fetchApi\<close> escape: whatever the
  endpoint and whatever is thrown, \<^verbatim>\<open>fetchData\<close> of \<^verbatim>\<open>useApi\<close> and \<^verbatim>\<open>mutate\<close> of
  \<^verbatim>\<open>useMutation\<close> resolve.  When the fetch fails, \<^verbatim>\<open>fetchData\<close> leaves no data,
  \<^verbatim>\<open>loading = false\<close> and the failure message as error; \<^verbatim>\<open>mutate\<close> resolves to
  \<^verbatim>\<open>null\<close> with the failure message as error (also when serialising the
  parameters throws).  When the fetch succeeds, the error is \<^verbatim>\<open>null\<close> and the
  parsed response is the data, respectively the value \<^verbatim>\<open>mutate\<close> resolves to.
\<close>

theorem hooks_catch_every_failure:
  fixes fetchApi :: "string \<Rightarrow> thrown + 'a"
    and fetchApi' :: "string \<Rightarrow> RequestInit \<Rightarrow> thrown + 'b"
    and stringify :: "'p \<Rightarrow> thrown + string option"
  shows "(\<exists>st'. useApi_fetchData fetchApi endpoint st = Inr st')
    \<and> (fetchApi endpoint = Inl err \<longrightarrow>
         useApi_fetchData fetchApi endpoint st =
           Inr \<lparr>data = None, loading_api = False,
                error_api = Some (error_message ''An error occurred'' err)\<rparr>)
    \<and> (fetchApi endpoint = Inr d \<longrightarrow>
         useApi_fetchData fetchApi endpoint st =
           Inr \<lparr>data = Some d, loading_api = False, error_api = None\<rparr>)
    \<and> (\<exists>res. mutate truthy stringify fetchApi' endpoint' verb params ms = Inr res)
    \<and> (mutate_body truthy stringify params = Inr body \<longrightarrow>
         fetchApi' endpoint' \<lparr>method_init = verb, body_init = body\<rparr> = Inl err \<longrightarrow>
         mutate truthy stringify fetchApi' endpoint' verb params ms =
           Inr (None, \<lparr>loading_m = False,
                       error_m = Some (error_message ''An error occurred'' err)\<rparr>))
    \<and> (mutate_body truthy stringify params = Inl err \<longrightarrow>
         mutate truthy stringify fetchApi' endpoint' verb params ms =
           Inr (None, \<lparr>loading_m = False,
                       error_m = Some (error_message ''An error occurred'' err)\<rparr>))
    \<and> (mutate_body truthy stringify params = Inr body \<longrightarrow>
         fetchApi' endpoint' \<lparr>method_init = verb, body_init = body\<rparr> = Inr d' \<longrightarrow>
         mutate truthy stringify fetchApi' endpoint' verb params ms =
           Inr (Some d', \<lparr>loading_m = False, error_m = None\<rparr>))"
  by (simp add: useApi_fetchData_eq mutate_eq)

theorem hooks_catch_every_failure_witness:
  "useApi_fetchData fetch_down ''/metrics/machines'' useApi_initial =
     Inr \<lparr>data = None, loading_api = False, error_api = Some ''Network down''\<rparr>
   \<and> useApi_fetchData fetch_answer ''/metrics/machines'' useApi_initial =
     Inr \<lparr>data = Some 42, loading_api = False, error_api = None\<rparr>
   \<and> mutate truthy_nat stringify_nat post_down ''/checkins/dismiss/7'' POST (Some 3) mutation_idle =
     Inr (None, \<lparr>loading_m = False, error_m = Some ''An error occurred''\<rparr>)
   \<and> mutate truthy_nat stringify_nat post_answer ''/checkins/dismiss/7'' POST (Some 3) mutation_idle =
     Inr (Some 42, \<lparr>loading_m = False, error_m = None\<rparr>)"
proof -
  let ?init = "\<lparr>method_init = POST, body_init = Some (js_string_of_nat 3)\<rparr>"
  have body: "mutate_body truthy_nat stringify_nat (Some 3) = Inr (Some (js_string_of_nat 3))"
    by (simp add: mutate_body_def stringify_nat_def truthy_nat_def)
  have 1: "fetch_down ''/metrics/machines'' = Inl (Error ''Network down'')"
    by (simp add: fetch_down_def)
  have 2: "fetch_answer ''/metrics/machines'' = Inr 42"
    by (simp add: fetch_answer_def)
  have 3: "post_down ''/checkins/dismiss/7'' ?init = Inl NonError"
    by (simp add: post_down_def)
  have 4: "post_answer ''/checkins/dismiss/7'' ?init = Inr 42"
    by (simp add: post_answer_def)
  note down = hooks_catch_every_failure
    [where fetchApi = fetch_down and endpoint = "''/metrics/machines''" and st = useApi_initial
       and endpoint' = "''/checkins/dismiss/7''" and fetchApi' = post_down and truthy = truthy_nat and stringify = stringify_nat
       and params = "Some 3" and verb = POST and ms = mutation_idle
       and body = "Some (js_string_of_nat 3)"]
  note up = hooks_catch_every_failure
    [where fetchApi = fetch_answer and endpoint = "''/metrics/machines''" and st = useApi_initial
       and endpoint' = "''/checkins/dismiss/7''" and fetchApi' = post_answer and truthy = truthy_nat and stringify = stringify_nat
       and params = "Some 3" and verb = POST and ms = mutation_idle
       and body = "Some (js_string_of_nat 3)"]
  have a: "useApi_fetchData fetch_down ''/metrics/machines'' useApi_initial =
     Inr \<lparr>data = None, loading_api = False, error_api = Some ''Network down''\<rparr>"
    using down [where err = "Error ''Network down''", THEN conjunct2, THEN conjunct1, rule_format, OF 1]
    by (simp add: error_message_def)
  have b: "useApi_fetchData fetch_answer ''/metrics/machines'' useApi_initial =
     Inr \<lparr>data = Some 42, loading_api = False, error_api = None\<rparr>"
    using up [where d = 42, THEN conjunct2, THEN conjunct2, THEN conjunct1, rule_format, OF 2]
    by simp
  have c: "mutate truthy_nat stringify_nat post_down ''/checkins/dismiss/7'' POST (Some 3) mutation_idle =
     Inr (None, \<lparr>loading_m = False, error_m = Some ''An error occurred''\<rparr>)"
    using down [where err = NonError, THEN conjunct2, THEN conjunct2, THEN conjunct2,
      THEN conjunct2, THEN conjunct1, rule_format, OF body 3]
    by (simp add: error_message_def)
  have d: "mutate truthy_nat stringify_nat post_answer ''/checkins/dismiss/7'' POST (Some 3) mutation_idle =
     Inr (Some 42, \<lparr>loading_m = False, error_m = None\<rparr>)"
    using up [where d' = 42, THEN conjunct2, THEN conjunct2, THEN conjunct2,
      THEN conjunct2, THEN conjunct2, THEN conjunct2, rule_format, OF body 4]
    by simp
  from a b c d show ?thesis by (intro conjI)
qed


section \<open>Properties of the machine table\<close>

lemma isCompareMachine_Machine: "\<not> isCompareMachine (Machine_object m)"
  by (simp add: isCompareMachine_def has_property_def Machine_object_def)

lemma isCompareMachine_CompareMachine: "isCompareMachine (CompareMachine_object c)"
  by (simp add: isCompareMachine_def has_property_def CompareMachine_object_def)

text \<open>
  Claim C2, as the code has it.  The rows of the machine table are the
  untagged union \<^verbatim>\<open>Machine | CompareMachine\<close>, and \<^verbatim>\<open>isCompareMachine\<close> tells them
  apart by the presence of the property \<^verbatim>\<open>success_rate_delta\<close>.  On the objects
  of the two declared shapes this agrees with the explicit discriminator of
  the tagged variant \<open>Plain | Compared\<close>; in comparison mode every displayed
  row is recognised as compared, without comparison data none is.
\<close>

theorem isCompareMachine_by_field_presence:
  "isCompareMachine obj = (''success_rate_delta'' \<in> fst ` set obj)
   \<and> isCompareMachine (MachineView_object v) = is_Compared v
   \<and> list_all isCompareMachine (displayMachines (Some c) r)
   \<and> list_all (\<lambda>obj. \<not> isCompareMachine obj) (displayMachines None r)"
proof (intro conjI)
  show "isCompareMachine obj = (''success_rate_delta'' \<in> fst ` set obj)"
    by (simp add: isCompareMachine_def has_property_def)
  show "isCompareMachine (MachineView_object v) = is_Compared v"
    by (cases v) (simp_all add: isCompareMachine_Machine isCompareMachine_CompareMachine)
  show "list_all isCompareMachine (displayMachines (Some c) r)"
    by (simp add: displayMachines_def list_all_iff isCompareMachine_CompareMachine)
  show "list_all (\<lambda>obj. \<not> isCompareMachine obj) (displayMachines None r)"
    by (cases r) (simp_all add: displayMachines_def list_all_iff isCompareMachine_Machine)
qed

text \<open>
  Claim C2 as stated fails: the discrimination is by field presence, not by
  a tag.  The plain summary of a machine and its comparison entry agree on
  every property the plain one has, so no property they share tells them
  apart, and yet they are classified differently; a plain summary given a
  \<^verbatim>\<open>success_rate_delta\<close> property (even \<^verbatim>\<open>null\<close>) counts as compared, and a
  comparison entry without that property as plain.
\<close>

theorem isCompareMachine_not_tagged:
  "\<not> isCompareMachine (Machine_object machine_example)
   \<and> isCompareMachine (CompareMachine_object compare_example)
   \<and> list_all (\<lambda>(k, v). map_of (CompareMachine_object compare_example) k = Some v)
        (Machine_object machine_example)
   \<and> isCompareMachine (Machine_object machine_example @ [(''success_rate_delta'', JNull)])
   \<and> \<not> isCompareMachine
        (filter (\<lambda>(k, v). k \<noteq> ''success_rate_delta'') (CompareMachine_object compare_example))"
  by (simp add: isCompareMachine_def has_property_def Machine_object_def CompareMachine_object_def
      machine_example_def compare_example_def Machine.extend_def CompareMachine.fields_def
      js_nullable_def)


section \<open>The outcome of a dismissal\<close>

text \<open>
  On the side of the page, the outcome chosen for a dismissal is one of
  exactly two values, and opening the dialog selects the check-in and resets
  the choice.
\<close>

lemma dismiss_request_two_outcomes:
  "(outcome_param oc = ''success'' \<or> outcome_param oc = ''fail'')
   \<and> (outcome_param oc = outcome_param oc') = (oc = oc')
   \<and> dismissOutcome (openDismissDialog checkin s) = Success
   \<and> selectedCheckin (openDismissDialog checkin s) = Some checkin"
  by (cases oc; cases oc') (simp_all add: openDismissDialog_def)







section \<open>Properties of the success rate\<close>

lemma round1_bounds:
  assumes "0 \<le> x" "x \<le> 100"
  shows "0 \<le> round1 x \<and> round1 x \<le> 100"
proof -
  have "round (0::rat) \<le> round (x * 10)"
    by (rule round_mono) (use assms in simp)
  moreover have "round (x * 10) \<le> round (1000::rat)"
    by (rule round_mono) (use assms in simp)
  ultimately have "0 \<le> round (x * 10) \<and> round (x * 10) \<le> 1000"
    by simp
  then show ?thesis
    by (simp add: round1_def)
qed

lemma round1_close: "\<bar>round1 x - x\<bar> \<le> 1 / 20"
proof -
  have h: "\<bar>of_int (round (x * 10)) - x * 10\<bar> \<le> 1 / 2"
    by (rule of_int_round_abs_le)
  have e: "round1 x - x = (of_int (round (x * 10)) - x * 10) / 10"
    by (simp add: round1_def field_simps)
  have "\<bar>round1 x - x\<bar> = \<bar>of_int (round (x * 10)) - x * 10\<bar> / 10"
    unfolding e by (simp only: abs_divide abs_numeral)
  also have "\<dots> \<le> (1 / 2) / 10"
    using h by (rule divide_right_mono) simp
  finally show ?thesis by simp
qed

lemma round1_grid:
  assumes a: "round1 a = a" and b: "round1 b = b"
  shows "round1 (a - b) = a - b"
proof -
  let ?k = "round (a * 10)" and ?l = "round (b * 10)"
  have a10: "a * 10 = of_int ?k"
    using a by (simp add: round1_def field_simps)
  have b10: "b * 10 = of_int ?l"
    using b by (simp add: round1_def field_simps)
  have "(a - b) * 10 = of_int (?k - ?l)"
    using a10 b10 by (simp add: algebra_simps)
  then have "round ((a - b) * 10) = ?k - ?l"
    by (simp only: round_of_int)
  then have "round1 (a - b) = of_int (?k - ?l) / 10"
    by (simp add: round1_def)
  also have "\<dots> = a - b"
    using a10 b10 by (simp add: field_simps)
  finally show ?thesis .
qed

lemma round1_idem: "round1 (round1 x) = round1 x"
proof -
  have "round1 x * 10 = of_int (round (x * 10))"
    by (simp add: round1_def)
  then have "round (round1 x * 10) = round (x * 10)"
    by (simp only: round_of_int)
  then show ?thesis
    by (simp add: round1_def)
qed

lemma rate_bounds:
  assumes "n \<le> denom"
  shows "\<exists>r. rate n denom = Inr r \<and> 0 \<le> r \<and> r \<le> 100 \<and> (denom = 0 \<longrightarrow> r = 0)"
proof (cases "denom = 0")
  case True
  then show ?thesis by (simp add: rate_def)
next
  case False
  let ?q = "(of_nat n :: rat) / of_nat denom"
  have q: "0 \<le> ?q * 100 \<and> ?q * 100 \<le> 100"
    using assms False by (simp add: divide_le_eq)
  have "rate n denom = Inr (round1 (?q * 100))"
    using False by (simp add: rate_def divide_checked_def)
  with round1_bounds [of "?q * 100"] q False show ?thesis
    by simp
qed

lemma round1_zero: "round1 0 = 0"
  by (simp add: round1_def)

lemma rate_one_decimal: "rate n denom = Inr r \<Longrightarrow> round1 r = r"
  by (auto simp add: rate_def divide_checked_def round1_idem round1_zero split: if_splits)

lemma successful_le_completed:
  "length (filter is_successful cs) \<le> length (filter is_completed cs)"
  by (induction cs) (auto simp add: is_successful_def)

lemma checkin_row_completed: "is_completed (checkin_row i healed oc) = (healed \<noteq> None)"
  by (simp add: is_completed_def checkin_row_def)

lemma checkin_row_successful:
  "is_successful (checkin_row i healed oc) = (healed \<noteq> None \<and> oc = Some Successful)"
  by (simp add: is_successful_def is_completed_def checkin_row_def)

text \<open>
  Claim C5.  For every list of check-ins (a bucket, a machine's check-ins, a
  leaderboard entry's, or all of them) the success rate is computed without a
  division fault, lies between 0 and 100, and is 0 when no check-in of the
  list is completed.
\<close>

theorem success_rate_in_range:
  "\<exists>r. success_rate_of cs = Inr r \<and> 0 \<le> r \<and> r \<le> 100
       \<and> (filter is_completed cs = [] \<longrightarrow> r = 0)"
proof -
  from rate_bounds [OF successful_le_completed [of cs]]
  obtain r where "rate (length (filter is_successful cs)) (length (filter is_completed cs)) = Inr r"
    and "0 \<le> r" and "r \<le> 100" and "length (filter is_completed cs) = 0 \<longrightarrow> r = 0"
    by blast
  then show ?thesis
    by (auto simp add: success_rate_of_def)
qed

theorem success_rate_in_range_witness:
  "success_rate_of [checkin_row 3 None None] = Inr 0
   \<and> success_rate_of checkins_scenario = Inr 100"
proof -
  from success_rate_in_range [of "[checkin_row 3 None None]"]
  obtain r where r: "success_rate_of [checkin_row 3 None None] = Inr r"
    and z: "filter is_completed [checkin_row 3 None None] = [] \<longrightarrow> r = 0"
    by blast
  have "filter is_completed [checkin_row 3 None None] = []"
    by (simp add: checkin_row_completed)
  with z r have a: "success_rate_of [checkin_row 3 None None] = Inr 0"
    by simp
  have b: "success_rate_of checkins_scenario = Inr 100"
    by (simp add: success_rate_of_def checkins_scenario_def checkin_row_completed
        checkin_row_successful rate_def divide_checked_def round1_def)
  from a b show ?thesis by (rule conjI)
qed


section \<open>Properties of the comparison\<close>

lemma compare_Inr:
  assumes "compare bid ms = Inr resp"
  obtains b where "find (\<lambda>m. id_m m = bid) ms = Some b" and "id_m b = bid"
    and "resp = \<lparr>baseline_id = bid, compare_machines = map (compare_entry b) ms\<rparr>"
proof (cases "find (\<lambda>m. id_m m = bid) ms")
  case None
  with assms show ?thesis by (simp add: compare_def)
next
  case (Some b)
  then have "id_m b = bid"
    by (auto simp add: find_Some_iff)
  with Some assms that show ?thesis
    by (auto simp add: compare_def)
qed

lemma compare_entry_base: "Machine.truncate (compare_entry b m) = m"
  by (simp add: compare_entry_def Machine.truncate_def Machine.extend_def)

lemma compare_entry_baseline:
  assumes "id_m m = id_m b"
  shows "success_rate_delta (compare_entry b m) = 0"
    and "checkins_delta (compare_entry b m) = 0"
    and "healing_time_delta (compare_entry b m) = Some 0"
    and "is_baseline (compare_entry b m) = 1"
  using assms by (simp_all add: compare_entry_def Machine.extend_def CompareMachine.fields_def)

lemma compare_entry_other:
  assumes "id_m m \<noteq> id_m b"
  shows "success_rate_delta (compare_entry b m) = round1 (success_rate m - success_rate b)"
    and "checkins_delta (compare_entry b m) = total_checkins m - total_checkins b"
    and "healing_time_delta (compare_entry b m) =
           (case (avg_healing_time_minutes m, avg_healing_time_minutes b) of
              (Some x, Some y) \<Rightarrow> Some (x - y) | _ \<Rightarrow> None)"
    and "is_baseline (compare_entry b m) = 0"
  using assms by (simp_all add: compare_entry_def Machine.extend_def CompareMachine.fields_def)

text \<open>
  Claim C6.  When the comparison succeeds, its entries are the given machine
  summaries in order, each extended with deltas.  The entry of the baseline
  machine has the three deltas exactly 0 and the baseline flag set.  For every
  other machine the flag is clear, the check-ins delta is exactly the machine's
  total minus the baseline's, the success-rate delta is the difference of the
  two rates at one-decimal precision (within 1/20 of the exact difference, and
  equal to it when both rates are one-decimal values, as every computed rate
  is by \<open>rate_one_decimal\<close>),
  and the healing-time delta is the difference of the two averages when both
  machines have one, and absent otherwise.
\<close>

theorem compare_deltas:
  assumes "compare bid ms = Inr resp"
  shows "\<exists>b. find (\<lambda>m. id_m m = bid) ms = Some b \<and> id_m b = bid
      \<and> baseline_id resp = bid
      \<and> length (compare_machines resp) = length ms
      \<and> (\<forall>i < length ms.
            Machine.truncate (compare_machines resp ! i) = ms ! i
          \<and> (id_m (ms ! i) = bid \<longrightarrow>
                success_rate_delta (compare_machines resp ! i) = 0
              \<and> checkins_delta (compare_machines resp ! i) = 0
              \<and> healing_time_delta (compare_machines resp ! i) = Some 0
              \<and> is_baseline (compare_machines resp ! i) = 1)
          \<and> (id_m (ms ! i) \<noteq> bid \<longrightarrow>
                is_baseline (compare_machines resp ! i) = 0
              \<and> checkins_delta (compare_machines resp ! i) =
                  total_checkins (ms ! i) - total_checkins b
              \<and> success_rate_delta (compare_machines resp ! i) =
                  round1 (success_rate (ms ! i) - success_rate b)
              \<and> \<bar>success_rate_delta (compare_machines resp ! i)
                   - (success_rate (ms ! i) - success_rate b)\<bar> \<le> 1 / 20
              \<and> (round1 (success_rate (ms ! i)) = success_rate (ms ! i)
                   \<and> round1 (success_rate b) = success_rate b \<longrightarrow>
                 success_rate_delta (compare_machines resp ! i) =
                   success_rate (ms ! i) - success_rate b)
              \<and> (\<forall>x y. avg_healing_time_minutes (ms ! i) = Some x
                     \<and> avg_healing_time_minutes b = Some y \<longrightarrow>
                   healing_time_delta (compare_machines resp ! i) = Some (x - y))
              \<and> (avg_healing_time_minutes (ms ! i) = None
                     \<or> avg_healing_time_minutes b = None \<longrightarrow>
                   healing_time_delta (compare_machines resp ! i) = None)))"
proof -
  from assms obtain b where f: "find (\<lambda>m. id_m m = bid) ms = Some b" and b: "id_m b = bid"
    and resp: "resp = \<lparr>baseline_id = bid, compare_machines = map (compare_entry b) ms\<rparr>"
    by (rule compare_Inr)
  have bl: "baseline_id resp = bid" and len: "length (compare_machines resp) = length ms"
    by (simp_all add: resp)
  have entry: "compare_machines resp ! i = compare_entry b (ms ! i)" if "i < length ms" for i
    using that by (simp add: resp)
  have per: "Machine.truncate (compare_machines resp ! i) = ms ! i
          \<and> (id_m (ms ! i) = bid \<longrightarrow>
                success_rate_delta (compare_machines resp ! i) = 0
              \<and> checkins_delta (compare_machines resp ! i) = 0
              \<and> healing_time_delta (compare_machines resp ! i) = Some 0
              \<and> is_baseline (compare_machines resp ! i) = 1)
          \<and> (id_m (ms ! i) \<noteq> bid \<longrightarrow>
                is_baseline (compare_machines resp ! i) = 0
              \<and> checkins_delta (compare_machines resp ! i) =
                  total_checkins (ms ! i) - total_checkins b
              \<and> success_rate_delta (compare_machines resp ! i) =
                  round1 (success_rate (ms ! i) - success_rate b)
              \<and> \<bar>success_rate_delta (compare_machines resp ! i)
                   - (success_rate (ms ! i) - success_rate b)\<bar> \<le> 1 / 20
              \<and> (round1 (success_rate (ms ! i)) = success_rate (ms ! i)
                   \<and> round1 (success_rate b) = success_rate b \<longrightarrow>
                 success_rate_delta (compare_machines resp ! i) =
                   success_rate (ms ! i) - success_rate b)
              \<and> (\<forall>x y. avg_healing_time_minutes (ms ! i) = Some x
                     \<and> avg_healing_time_minutes b = Some y \<longrightarrow>
                   healing_time_delta (compare_machines resp ! i) = Some (x - y))
              \<and> (avg_healing_time_minutes (ms ! i) = None
                     \<or> avg_healing_time_minutes b = None \<longrightarrow>
                   healing_time_delta (compare_machines resp ! i) = None))"
    if i: "i < length ms" for i
  proof (cases "id_m (ms ! i) = bid")
    case True
    then have "id_m (ms ! i) = id_m b" by (simp add: b)
    from compare_entry_baseline [OF this] True show ?thesis
      by (simp add: entry [OF i] compare_entry_base)
  next
    case False
    then have ne: "id_m (ms ! i) \<noteq> id_m b" by (simp add: b)
    note o = compare_entry_other [OF ne]
    have "healing_time_delta (compare_entry b (ms ! i)) = None"
      if "avg_healing_time_minutes (ms ! i) = None \<or> avg_healing_time_minutes b = None"
      using that by (auto simp add: o(3) split: option.split)
    moreover have "\<bar>round1 (success_rate (ms ! i) - success_rate b)
        - (success_rate (ms ! i) - success_rate b)\<bar> * 20 \<le> 1"
      using round1_close [of "success_rate (ms ! i) - success_rate b"] by simp
    ultimately show ?thesis
      using False by (simp add: entry [OF i] compare_entry_base o round1_grid)
  qed
  then have all: "\<forall>i < length ms. Machine.truncate (compare_machines resp ! i) = ms ! i
          \<and> (id_m (ms ! i) = bid \<longrightarrow>
                success_rate_delta (compare_machines resp ! i) = 0
              \<and> checkins_delta (compare_machines resp ! i) = 0
              \<and> healing_time_delta (compare_machines resp ! i) = Some 0
              \<and> is_baseline (compare_machines resp ! i) = 1)
          \<and> (id_m (ms ! i) \<noteq> bid \<longrightarrow>
                is_baseline (compare_machines resp ! i) = 0
              \<and> checkins_delta (compare_machines resp ! i) =
                  total_checkins (ms ! i) - total_checkins b
              \<and> success_rate_delta (compare_machines resp ! i) =
                  round1 (success_rate (ms ! i) - success_rate b)
              \<and> \<bar>success_rate_delta (compare_machines resp ! i)
                   - (success_rate (ms ! i) - success_rate b)\<bar> \<le> 1 / 20
              \<and> (round1 (success_rate (ms ! i)) = success_rate (ms ! i)
                   \<and> round1 (success_rate b) = success_rate b \<longrightarrow>
                 success_rate_delta (compare_machines resp ! i) =
                   success_rate (ms ! i) - success_rate b)
              \<and> (\<forall>x y. avg_healing_time_minutes (ms ! i) = Some x
                     \<and> avg_healing_time_minutes b = Some y \<longrightarrow>
                   healing_time_delta (compare_machines resp ! i) = Some (x - y))
              \<and> (avg_healing_time_minutes (ms ! i) = None
                     \<or> avg_healing_time_minutes b = None \<longrightarrow>
                   healing_time_delta (compare_machines resp ! i) = None))"
    by blast
  show ?thesis
    by (rule exI [of _ b]) (intro conjI f b bl len all)
qed

lemma machine_row_fields:
  "id_m (machine_row i n r avg) = i"
  "total_checkins (machine_row i n r avg) = n"
  "success_rate (machine_row i n r avg) = r"
  "avg_healing_time_minutes (machine_row i n r avg) = avg"
  by (simp_all add: machine_row_def)

theorem compare_deltas_witness:
  "\<exists>resp. compare 1 machines_scenario = Inr resp
     \<and> success_rate_delta (compare_machines resp ! 0) = 0
     \<and> checkins_delta (compare_machines resp ! 0) = 0
     \<and> healing_time_delta (compare_machines resp ! 0) = Some 0
     \<and> is_baseline (compare_machines resp ! 0) = 1
     \<and> success_rate_delta (compare_machines resp ! 1) = - 10
     \<and> checkins_delta (compare_machines resp ! 1) = - 3
     \<and> healing_time_delta (compare_machines resp ! 1) = None
     \<and> is_baseline (compare_machines resp ! 1) = 0
     \<and> success_rate_delta (compare_machines resp ! 2) = 11 / 2
     \<and> checkins_delta (compare_machines resp ! 2) = 2
     \<and> healing_time_delta (compare_machines resp ! 2) = Some (- 7)"
proof -
  let ?b = "machine_row 1 10 90 (Some 30)"
  let ?resp = "\<lparr>baseline_id = 1, compare_machines = map (compare_entry ?b) machines_scenario\<rparr>"
  have c: "compare 1 machines_scenario = Inr ?resp"
    by (simp add: compare_def machines_scenario_def machine_row_fields)
  from compare_deltas [OF c] obtain b where
    h: "find (\<lambda>m. id_m m = 1) machines_scenario = Some b \<and> id_m b = 1
      \<and> baseline_id ?resp = 1
      \<and> length (compare_machines ?resp) = length machines_scenario
      \<and> (\<forall>i < length machines_scenario.
            Machine.truncate (compare_machines ?resp ! i) = machines_scenario ! i
          \<and> (id_m (machines_scenario ! i) = 1 \<longrightarrow>
                success_rate_delta (compare_machines ?resp ! i) = 0
              \<and> checkins_delta (compare_machines ?resp ! i) = 0
              \<and> healing_time_delta (compare_machines ?resp ! i) = Some 0
              \<and> is_baseline (compare_machines ?resp ! i) = 1)
          \<and> (id_m (machines_scenario ! i) \<noteq> 1 \<longrightarrow>
                is_baseline (compare_machines ?resp ! i) = 0
              \<and> checkins_delta (compare_machines ?resp ! i) =
                  total_checkins (machines_scenario ! i) - total_checkins b
              \<and> success_rate_delta (compare_machines ?resp ! i) =
                  round1 (success_rate (machines_scenario ! i) - success_rate b)
              \<and> \<bar>success_rate_delta (compare_machines ?resp ! i)
                   - (success_rate (machines_scenario ! i) - success_rate b)\<bar> \<le> 1 / 20
              \<and> (round1 (success_rate (machines_scenario ! i)) = success_rate (machines_scenario ! i)
                   \<and> round1 (success_rate b) = success_rate b \<longrightarrow>
                 success_rate_delta (compare_machines ?resp ! i) =
                   success_rate (machines_scenario ! i) - success_rate b)
              \<and> (\<forall>x y. avg_healing_time_minutes (machines_scenario ! i) = Some x
                     \<and> avg_healing_time_minutes b = Some y \<longrightarrow>
                   healing_time_delta (compare_machines ?resp ! i) = Some (x - y))
              \<and> (avg_healing_time_minutes (machines_scenario ! i) = None
                     \<or> avg_healing_time_minutes b = None \<longrightarrow>
                   healing_time_delta (compare_machines ?resp ! i) = None)))" ..
  note f = h [THEN conjunct1]
  note all = h [THEN conjunct2, THEN conjunct2, THEN conjunct2, THEN conjunct2, rule_format]
  have b: "b = ?b"
    using f by (simp add: machines_scenario_def machine_row_fields)
  have r90: "round1 90 = 90" and r80: "round1 80 = 80" and r955: "round1 (191 / 2) = 191 / 2"
    by (simp_all add: round1_def)
  have m0: "machines_scenario ! 0 = machine_row 1 10 90 (Some 30)"
    and m1: "machines_scenario ! Suc 0 = machine_row 2 7 80 None"
    and m2: "machines_scenario ! 2 = machine_row 3 12 (191 / 2) (Some 23)"
    and len: "length machines_scenario = 3"
    by (simp_all add: machines_scenario_def)
  from all [of 0] have e0:
    "success_rate_delta (compare_machines ?resp ! 0) = 0
     \<and> checkins_delta (compare_machines ?resp ! 0) = 0
     \<and> healing_time_delta (compare_machines ?resp ! 0) = Some 0
     \<and> is_baseline (compare_machines ?resp ! 0) = 1"
    by (simp add: len m0 machine_row_fields)
  from all [of 1] have e1:
    "success_rate_delta (compare_machines ?resp ! 1) = - 10
     \<and> checkins_delta (compare_machines ?resp ! 1) = - 3
     \<and> healing_time_delta (compare_machines ?resp ! 1) = None
     \<and> is_baseline (compare_machines ?resp ! 1) = 0"
    by (simp add: len m1 b machine_row_fields r90 r80)
  from all [of 2] have e2:
    "success_rate_delta (compare_machines ?resp ! 2) = 11 / 2
     \<and> checkins_delta (compare_machines ?resp ! 2) = 2
     \<and> healing_time_delta (compare_machines ?resp ! 2) = Some (- 7)"
    by (simp add: len m2 b machine_row_fields r90 r955)
  from c e0 e1 e2 show ?thesis
    by (intro exI [of _ ?resp]) simp
qed


section \<open>Properties of the query options\<close>

text \<open>
  Claim C3.  The values of \<^verbatim>\<open>segment_by\<close> that are accepted are exactly \<^verbatim>\<open>none\<close>,
  \<^verbatim>\<open>type\<close> and \<^verbatim>\<open>subject\<close>, and an absent option means \<^verbatim>\<open>none\<close>; every other
  value is rejected with a validation failure whose message ends with the
  offending value, and is never mapped to an accepted one.
\<close>

theorem segment_by_validation:
  "parse_segment_by None = Inr SegmentNone
   \<and> parse_segment_by (Some ''none'') = Inr SegmentNone
   \<and> parse_segment_by (Some ''type'') = Inr SegmentType
   \<and> parse_segment_by (Some ''subject'') = Inr SegmentSubject
   \<and> ((\<exists>seg. parse_segment_by (Some s) = Inr seg) = (s \<in> {''none'', ''type'', ''subject''}))
   \<and> (s \<notin> {''none'', ''type'', ''subject''} \<longrightarrow>
        (\<exists>msg. parse_segment_by (Some s) = Inl (ValidationFailure (msg @ s)) \<and> msg \<noteq> []))"
  by (simp add: parse_segment_by_def)

theorem segment_by_validation_witness:
  "\<exists>msg. parse_segment_by (Some ''weekday'') = Inl (ValidationFailure (msg @ ''weekday'')) \<and> msg \<noteq> []"
proof -
  have "''weekday'' \<notin> {''none'', ''type'', ''subject''}"
    by simp
  with segment_by_validation [of "''weekday''"] show ?thesis
    by blast
qed

text \<open>
  Claim C7.  The leaderboard size defaults to 5 when no limit is given; a
  limit of at least 1 is used as given; a limit below 1, in particular 0, is
  rejected as invalid input and no leaderboard is produced.
\<close>

theorem leaderboard_limit:
  "parse_limit None = Inr 5
   \<and> leaderboard None ranked = Inr (take 5 ranked)
   \<and> (1 \<le> n \<longrightarrow>
        parse_limit (Some n) = Inr (nat n) \<and> 1 \<le> nat n
        \<and> leaderboard (Some n) ranked = Inr (take (nat n) ranked))
   \<and> (n < 1 \<longrightarrow>
        (\<exists>msg. parse_limit (Some n) = Inl (ValidationFailure msg)
           \<and> leaderboard (Some n) ranked = Inl (ValidationFailure msg)))
   \<and> (\<exists>msg. leaderboard (Some 0) ranked = Inl (ValidationFailure msg))"
  by (auto simp add: parse_limit_def leaderboard_def)

theorem leaderboard_limit_witness:
  "leaderboard (Some 2) [10, 20, 30 :: nat] = Inr [10, 20]
   \<and> (\<exists>msg. leaderboard (Some (- 1)) [10, 20, 30 :: nat] = Inl (ValidationFailure msg))"
proof -
  have one: "(1::int) \<le> 2" and neg: "(- 1 :: int) < 1"
    by simp_all
  note t = leaderboard_limit [where ranked = "[10, 20, 30 :: nat]"]
  from t [of 2] one have "leaderboard (Some 2) [10, 20, 30 :: nat] = Inr (take (nat 2) [10, 20, 30])"
    by blast
  then have a: "leaderboard (Some 2) [10, 20, 30 :: nat] = Inr [10, 20]"
    by (simp add: numeral_2_eq_2)
  from t [of "- 1"] neg
  have b: "\<exists>msg. leaderboard (Some (- 1)) [10, 20, 30 :: nat] = Inl (ValidationFailure msg)"
    by blast
  from a b show ?thesis by (rule conjI)
qed



end
